theory Spec2Isabelle
  imports Main "HOL-Library.AList" "HOL-Library.Sublist"
begin

section \<open>Values exchanged with the server\<close>

text \<open>
  Decoded response bodies and request payloads are JSON documents. A Python dict keeps
  its keys unique and in insertion order, so a mapping is an association list; storing
  under an existing key replaces the value in place, storing under a new key appends
  (\<open>AList.update\<close> does exactly this).
\<close>

datatype json =
    JNull
  | JBool bool
  | JInt int
  | JStr string
  | JList "json list"
  | JObj "(string \<times> json) list"

type_synonym dict = "(string \<times> json) list"

section \<open>The merge of \<open>config_set_diff\<close>\<close>

text \<open>
  \<^verbatim>\<open>
  def update(d, u):
      for key, value in u.items():
          if isinstance(value, abc.Mapping) and key in d and isinstance(d[key], abc.Mapping):
              d[key] = update(d[key], value)
              continue
          d[key] = value
      return d
  \<close>
  The loop runs over the items of \<open>u\<close> in order; the nested call descends into the value
  of the item at hand.
\<close>

fun update :: "dict \<Rightarrow> dict \<Rightarrow> dict" where
  "update d [] = d"
| "update d ((key, JObj value) # u) =
     (case map_of d key of
        Some (JObj old) \<Rightarrow> update (AList.update key (JObj (update old value)) d) u
      | _ \<Rightarrow> update (AList.update key (JObj value) d) u)"
| "update d ((key, value) # u) = update (AList.update key value d) u"

text \<open>The value one iteration of the loop stores under \<open>key\<close>.\<close>

definition stored :: "dict \<Rightarrow> string \<Rightarrow> json \<Rightarrow> json" where
  "stored d key value =
     (case value of
        JObj new \<Rightarrow> (case map_of d key of Some (JObj old) \<Rightarrow> JObj (update old new) | _ \<Rightarrow> value)
      | _ \<Rightarrow> value)"

section \<open>Errors\<close>

text \<open>
  A transport error (\<open>coreapi.exceptions.ErrorMessage\<close>) carries an error document; the
  code reads its \<open>title\<close> attribute and its \<open>_data\<close> mapping, either of which may be
  missing. Every exception the modelled code raises or lets through is a constructor of
  \<open>error\<close>; a computation that may raise returns \<open>error + 'a\<close>.
\<close>

datatype transport_error =
  Transport_Error (title: "string option") (data: "(string \<times> string) list option")

datatype error =
    ErrorMessage transport_error
  | WaitTimeout
  | TaskFailed
  | ActionHasIssues
  | ADCMApiError string
  | NoCredentionsProvided
  | ObjectNotFound
  | VersionMismatch
  | KeyError string
  | AttributeError string
  | TypeError string

type_synonym 'a result = "error + 'a"

section \<open>Version strings\<close>

text \<open>
  Modelled from the spec: \<open>rpm.compare_versions\<close> comes from the external package
  \<open>version_utils\<close>. The spec orders version strings by numeric comparison of their
  dotted components; the result is \<open>-1\<close>, \<open>0\<close> or \<open>1\<close> as in the calls of the source
  (\<open>compare_versions(a, b) < 0\<close> reads "a is older than b"). Characters other than
  decimal digits and the dot carry no numeric value and are skipped.
\<close>

text \<open>Modelled from the spec: the dotted components of a version string.\<close>

fun components :: "string \<Rightarrow> string list" where
  "components [] = [[]]"
| "components (c # cs) =
     (if c = CHR ''.'' then [] # components cs
      else (case components cs of [] \<Rightarrow> [[c]] | x # xs \<Rightarrow> (c # x) # xs))"

text \<open>Modelled from the spec: the numeric value of one dotted component.\<close>

definition is_digit :: "char \<Rightarrow> bool" where
  "is_digit c = (48 \<le> (of_char c :: nat) \<and> (of_char c :: nat) \<le> 57)"

definition number :: "string \<Rightarrow> nat" where
  "number s = foldl (\<lambda>n c. 10 * n + (of_char c - 48)) 0 (filter is_digit s)"

text \<open>Modelled from the spec: a version string as the list of its numeric components.\<close>

definition version_key :: "string \<Rightarrow> nat list" where
  "version_key v = map number (components v)"

text \<open>
  Modelled from the spec: numeric component comparison, the first differing component
  deciding; a version that continues where the other ends is the newer one.
\<close>

fun compare_keys :: "nat list \<Rightarrow> nat list \<Rightarrow> int" where
  "compare_keys [] [] = 0"
| "compare_keys [] (y # ys) = -1"
| "compare_keys (x # xs) [] = 1"
| "compare_keys (x # xs) (y # ys) =
     (if x < y then -1 else if y < x then 1 else compare_keys xs ys)"

text \<open>
  Modelled from the spec: \<open>rpm.compare_versions\<close> of the external package
  \<open>version_utils\<close>, as the total order of version strings the spec describes.
\<close>

definition compare_versions :: "string \<Rightarrow> string \<Rightarrow> int" where
  "compare_versions version_a version_b = compare_keys (version_key version_a) (version_key version_b)"

section \<open>Version Gate\<close>

text \<open>
  Modelled from the spec: the decorators \<open>legacy_server_implementaion\<close> and
  \<open>min_server_version\<close> live in \<open>adcm_client.base\<close>. The spec's contract for the first is
  \<open>select(server_version, threshold_version, modern_impl, legacy_impl)\<close>:
  \<open>server_version < threshold_version\<close> selects the legacy implementation, otherwise the
  modern one.
\<close>

datatype variant = Legacy | Modern

text \<open>Modelled from the spec: the choice made by the Version Gate of \<open>adcm_client.base\<close>.\<close>

definition select :: "string \<Rightarrow> string \<Rightarrow> variant" where
  "select server_version threshold_version =
     (if compare_versions server_version threshold_version < 0 then Legacy else Modern)"

text \<open>
  Modelled from the spec: the decorator \<open>legacy_server_implementaion\<close> of
  \<open>adcm_client.base\<close>, which runs the implementation the gate selects.
\<close>

definition legacy_server_implementaion ::
  "('x \<Rightarrow> 'y) \<Rightarrow> string \<Rightarrow> ('x \<Rightarrow> 'y) \<Rightarrow> string \<Rightarrow> 'x \<Rightarrow> 'y" where
  "legacy_server_implementaion oldfunc turnover_version newfunc adcm_version x =
     (case select adcm_version turnover_version of
        Legacy \<Rightarrow> oldfunc x
      | Modern \<Rightarrow> newfunc x)"

text \<open>
  Modelled from the spec: a guarded operation called against a server below its minimum
  version fails with a version-mismatch error before the operation itself runs. The
  guarded operation acts on the state \<open>'s\<close> of the connection (the requests sent so far).
\<close>

definition min_server_version ::
  "string \<Rightarrow> ('s \<Rightarrow> 'a result \<times> 's) \<Rightarrow> string \<Rightarrow> 's \<Rightarrow> 'a result \<times> 's" where
  "min_server_version version func adcm_version s =
     (if compare_versions adcm_version version < 0 then (Inl VersionMismatch, s) else func s)"

section \<open>Resource handles\<close>

text \<open>
  A handle records how an object was addressed: constructed directly (\<open>Cls(api, **args)\<close>),
  through \<open>self._child_obj(Cls, **args)\<close> or through \<open>self._subobject(Cls, **args)\<close>,
  together with the \<open>PATH\<close> its instance ends up with. \<open>Service.__new__\<close> and
  \<open>Component.__new__\<close> clear \<open>PATH\<close> on old servers:
  \<^verbatim>\<open>
  if rpm.compare_versions(wrapper.adcm_version, '2020.09.25.13') < 0:
      instance.PATH = None
  \<close>
\<close>

datatype cls = Cluster | Service | ServiceList | Host | Provider | Component | Action

datatype resource =
    New cls "string list option" dict
  | Child_obj resource cls "string list option" dict
  | Subobject resource cls "string list option" dict

definition Service_new :: "string \<Rightarrow> string list option" where
  "Service_new adcm_version =
     (if compare_versions adcm_version ''2020.09.25.13'' < 0 then None else Some [''service''])"

definition Component_new :: "string \<Rightarrow> string list option" where
  "Component_new adcm_version =
     (if compare_versions adcm_version ''2021.03.12.16'' < 0 then None else Some [''component''])"

fun PATH :: "string \<Rightarrow> cls \<Rightarrow> string list option" where
  "PATH adcm_version Cluster = Some [''cluster'']"
| "PATH adcm_version Service = Service_new adcm_version"
| "PATH adcm_version ServiceList = Service_new adcm_version"
| "PATH adcm_version Host = Some [''host'']"
| "PATH adcm_version Provider = Some [''provider'']"
| "PATH adcm_version Component = Component_new adcm_version"
| "PATH adcm_version Action = None"

text \<open>The \<open>IDNAME\<close> class attribute; the list class declares none.\<close>

fun IDNAME :: "cls \<Rightarrow> string option" where
  "IDNAME Cluster = Some ''cluster_id''"
| "IDNAME Service = Some ''service_id''"
| "IDNAME ServiceList = None"
| "IDNAME Host = Some ''host_id''"
| "IDNAME Provider = Some ''provider_id''"
| "IDNAME Component = Some ''component_id''"
| "IDNAME Action = Some ''action_id''"

text \<open>
  \<^verbatim>\<open>
  def _service_old(self, **args):
      return self._subobject(Service, **args)

  @legacy_server_implementaion(_service_old, '2020.09.25.13')
  def service(self, **args):
      return self._child_obj(Service, **args)
  \<close>
  and the same pair for \<open>service_list\<close> with \<open>ServiceList\<close>.
\<close>

definition service_old :: "string \<Rightarrow> resource \<times> dict \<Rightarrow> resource" where
  "service_old adcm_version = (\<lambda>(self, args). Subobject self Service (PATH adcm_version Service) args)"

definition Cluster_service :: "string \<Rightarrow> resource \<Rightarrow> dict \<Rightarrow> resource" where
  "Cluster_service adcm_version self args =
     legacy_server_implementaion (service_old adcm_version) ''2020.09.25.13''
       (\<lambda>(self, args). Child_obj self Service (PATH adcm_version Service) args)
       adcm_version (self, args)"

definition service_list_old :: "string \<Rightarrow> resource \<times> dict \<Rightarrow> resource" where
  "service_list_old adcm_version =
     (\<lambda>(self, args). Subobject self ServiceList (PATH adcm_version ServiceList) args)"

definition Cluster_service_list :: "string \<Rightarrow> resource \<Rightarrow> dict \<Rightarrow> resource" where
  "Cluster_service_list adcm_version self args =
     legacy_server_implementaion (service_list_old adcm_version) ''2020.09.25.13''
       (\<lambda>(self, args). Child_obj self ServiceList (PATH adcm_version ServiceList) args)
       adcm_version (self, args)"

section \<open>Operations with a minimum server version\<close>

text \<open>
  \<^verbatim>\<open>
  @min_server_version('2020.09.25.13')
  def service_list(self, paging=None, **args):
      return self._child_obj(ServiceList, paging=paging, **args)

  @min_server_version('2020.05.13.00')
  def service_delete(self, service):
      with allure_step(...):
          self._subcall("service", "delete", service_id=service.id)
  \<close>
  \<open>_child_obj\<close> and \<open>_subcall\<close> belong to the base class in \<open>adcm_client.base\<close>; they
  are parameters here, acting on the sequence of requests sent to the server.
  \<open>service_delete\<close> has no return statement: the answer to its request is dropped and
  the call returns \<open>None\<close>.
\<close>

type_synonym request = "string list \<times> dict"

definition ServicePrototype_service_list ::
  "(dict \<Rightarrow> request list \<Rightarrow> resource result \<times> request list) \<Rightarrow> dict \<Rightarrow> string \<Rightarrow>
   request list \<Rightarrow> resource result \<times> request list" where
  "ServicePrototype_service_list child_obj args adcm_version =
     min_server_version ''2020.09.25.13'' (child_obj args) adcm_version"

definition Cluster_service_delete ::
  "(request \<Rightarrow> request list \<Rightarrow> json result \<times> request list) \<Rightarrow> int \<Rightarrow> string \<Rightarrow>
   request list \<Rightarrow> unit result \<times> request list" where
  "Cluster_service_delete subcall service_id adcm_version =
     min_server_version ''2020.05.13.00''
       (\<lambda>sent.
          case subcall ([''service'', ''delete''], [(''service_id'', JInt service_id)]) sent of
            (Inl e, sent') \<Rightarrow> (Inl e, sent')
          | (Inr answer, sent') \<Rightarrow> (Inr (), sent'))
       adcm_version"

text \<open>A transport that sends every request and answers with \<open>reply\<close>.\<close>

definition send :: "(request \<Rightarrow> 'a result) \<Rightarrow> request \<Rightarrow> request list \<Rightarrow> 'a result \<times> request list" where
  "send reply req sent = (reply req, sent @ [req])"

section \<open>Task\<close>

text \<open>
  \<^verbatim>\<open>
  TASK_PARENT = {'cluster': Cluster, 'service': Service, 'host': Host,
                 'provider': Provider, 'component': Component}

  @min_server_version('2020.08.27.00')
  def action(self):
      kwargs = {f'{self.object_type}_id': self.object_id}
      return TASK_PARENT[self.object_type](
          self._api, **kwargs).action(action_id=self.action_id)
  \<close>
  where \<open>action\<close> of the owning object is \<open>self._subobject(Action, **args)\<close>.
  The source notes on this method: "for component object method will work after version
  2021.03.12.16".
\<close>

record task =
  action_id :: int
  object_id :: int
  object_type :: string

definition TASK_PARENT :: "(string \<times> cls) list" where
  "TASK_PARENT =
     [(''cluster'', Cluster), (''service'', Service), (''host'', Host),
      (''provider'', Provider), (''component'', Component)]"

text \<open>
  Modelled from the spec: the constructor of the base class lives in
  \<open>adcm_client.base\<close>. An entity whose class has no top-level path on the connected
  server is addressed only as a subobject of its parent (spec, Version Gate); constructed
  directly as \<open>Cls(api, **kwargs)\<close>, an instance whose \<open>PATH\<close> is \<open>None\<close> has no
  endpoint to resolve, and the construction raises an \<open>AttributeError\<close>.
\<close>

definition new_object :: "string \<Rightarrow> cls \<Rightarrow> dict \<Rightarrow> resource result" where
  "new_object adcm_version c kwargs =
     (case PATH adcm_version c of
        None \<Rightarrow> Inl (AttributeError ''PATH'')
      | Some path \<Rightarrow> Inr (New c (Some path) kwargs))"

definition Task_action_body :: "string \<Rightarrow> task \<Rightarrow> resource result" where
  "Task_action_body adcm_version self =
     (let kwargs = [(object_type self @ ''_id'', JInt (object_id self))] in
      case map_of TASK_PARENT (object_type self) of
        None \<Rightarrow> Inl (KeyError (object_type self))
      | Some parent \<Rightarrow>
          (case new_object adcm_version parent kwargs of
             Inl e \<Rightarrow> Inl e
           | Inr owner \<Rightarrow>
               Inr (Subobject owner Action (PATH adcm_version Action)
                      [(''action_id'', JInt (action_id self))])))"

definition Task_action :: "string \<Rightarrow> task \<Rightarrow> 's \<Rightarrow> resource result \<times> 's" where
  "Task_action adcm_version self =
     min_server_version ''2020.08.27.00'' (\<lambda>s. (Task_action_body adcm_version self, s)) adcm_version"

subsection \<open>Polling\<close>

text \<open>
  Modelled from the spec: \<open>wait_for_attr\<close> is a method of the base class in
  \<open>adcm_client.base\<close>. It re-fetches the attribute at a fixed interval until the value is
  a member of the terminal values or the timeout has elapsed, and then fails with
  \<open>WaitTimeout\<close>; a transport error during polling propagates at once. The list \<open>polls\<close>
  holds the outcomes of the fetches that fit before the deadline, in order. The second
  component of the result counts the fetches made.
\<close>

fun wait_for_attr :: "string list \<Rightarrow> string result list \<Rightarrow> string result \<times> nat" where
  "wait_for_attr values [] = (Inl WaitTimeout, 0)"
| "wait_for_attr values (Inl e # polls) = (Inl e, 1)"
| "wait_for_attr values (Inr v # polls) =
     (if v \<in> set values then (Inr v, 1)
      else (case wait_for_attr values polls of (r, n) \<Rightarrow> (r, Suc n)))"

definition Task_END_STATUSES :: "string list" where
  "Task_END_STATUSES = [''failed'', ''success'']"

definition Job_END_STATUSES :: "string list" where
  "Job_END_STATUSES = [''failed'', ''success'']"

text \<open>
  \<^verbatim>\<open>
  def wait(self, timeout=None):        # Job
      return self.wait_for_attr("status", self._END_STATUSES, timeout=timeout)
  \<close>
\<close>

definition Job_wait :: "string result list \<Rightarrow> string result" where
  "Job_wait polls = fst (wait_for_attr Job_END_STATUSES polls)"

subsection \<open>Diagnostic log collection\<close>

text \<open>
  \<^verbatim>\<open>
  def _log_jobs(self, **filters):
      for job in self.job_list(**filters):
          log_func = logger.error if job.status == "failed" else logger.info
          try:
              action_name = self.action().name
          except ErrorMessage:
              action = EndPoint(self._api, 'action_id', ['stack', 'action']).read(self.action_id)
              action_name = action['name']
          log_func("Action: %s", action_name)
          for file in job.log_files:
              try:
                  response = self._api.client.get(file["url"])
              except ErrorMessage as error:
                  if error.error._data['code'] == 'LOG_NOT_FOUND':
                      continue
                  raise error
              content_format = response.get("format", "txt")
              if "type" in response:
                  log_func("Type: %s", response['type'])
              if "content" in response:
                  if content_format == "json":
                      log_func(dumps(response["content"], indent=2))
                  else:
                      log_func(response["content"])
  \<close>
  What the server answers is collected in a record: the jobs of the task, the answer to
  a \<open>get\<close> of each log file's url, the outcome of \<open>self.action().name\<close> and of the
  fallback read of the action's name. A log file is given by its url. The function
  returns the lines handed to the logger, and the exception it ends with, if any.
\<close>

record job =
  status :: string
  log_files :: "string list"

record server =
  jobs :: "job list"
  client_get :: "string \<Rightarrow> dict result"
  action_name :: "string result"
  stack_action_name :: "string result"

datatype level = Error | Info

datatype message =
    Action_line string
  | Type_line json
  | Content json
  | Content_dumps json

type_synonym log = "(level \<times> message) list"

definition log_response :: "level \<Rightarrow> dict \<Rightarrow> log" where
  "log_response log_func response =
     (let content_format = (case map_of response ''format'' of None \<Rightarrow> JStr ''txt'' | Some f \<Rightarrow> f) in
      (case map_of response ''type'' of None \<Rightarrow> [] | Some t \<Rightarrow> [(log_func, Type_line t)]) @
      (case map_of response ''content'' of
         None \<Rightarrow> []
       | Some c \<Rightarrow>
           [(log_func, if content_format = JStr ''json'' then Content_dumps c else Content c)]))"

fun log_job_files :: "(string \<Rightarrow> dict result) \<Rightarrow> level \<Rightarrow> string list \<Rightarrow> log \<times> error option" where
  "log_job_files get log_func [] = ([], None)"
| "log_job_files get log_func (file # files) =
     (case get file of
        Inl (ErrorMessage error) \<Rightarrow>
          (case data error of
             None \<Rightarrow> ([], Some (AttributeError ''_data''))
           | Some d \<Rightarrow>
               (case map_of d ''code'' of
                  None \<Rightarrow> ([], Some (KeyError ''code''))
                | Some code \<Rightarrow>
                    if code = ''LOG_NOT_FOUND'' then log_job_files get log_func files
                    else ([], Some (ErrorMessage error))))
      | Inl e \<Rightarrow> ([], Some e)
      | Inr response \<Rightarrow>
          (case log_job_files get log_func files of
             (out, r) \<Rightarrow> (log_response log_func response @ out, r)))"

definition job_list :: "server \<Rightarrow> string option \<Rightarrow> job list" where
  "job_list srv status_filter =
     (case status_filter of
        None \<Rightarrow> jobs srv
      | Some st \<Rightarrow> filter (\<lambda>j. status j = st) (jobs srv))"

definition get_action_name :: "server \<Rightarrow> string result" where
  "get_action_name srv =
     (case action_name srv of
        Inl (ErrorMessage error) \<Rightarrow> stack_action_name srv
      | r \<Rightarrow> r)"

fun log_job_loop :: "server \<Rightarrow> job list \<Rightarrow> log \<times> error option" where
  "log_job_loop srv [] = ([], None)"
| "log_job_loop srv (job # rest) =
     (let log_func = (if status job = ''failed'' then Error else Info) in
      case get_action_name srv of
        Inl e \<Rightarrow> ([], Some e)
      | Inr name \<Rightarrow>
          (case log_job_files (client_get srv) log_func (log_files job) of
             (out, Some e) \<Rightarrow> ((log_func, Action_line name) # out, Some e)
           | (out, None) \<Rightarrow>
               (case log_job_loop srv rest of
                  (out', r) \<Rightarrow> ((log_func, Action_line name) # out @ out', r))))"

definition log_jobs :: "server \<Rightarrow> string option \<Rightarrow> log \<times> error option" where
  "log_jobs srv status_filter = log_job_loop srv (job_list srv status_filter)"

subsection \<open>Waiting for a task\<close>

text \<open>
  \<^verbatim>\<open>
  def wait(self, timeout=None, log_failed=True):
      try:
          status = self.wait_for_attr("status", self._END_STATUSES, timeout=timeout)
          if log_failed and status == "failed":
              self._log_jobs(status=status)
      except WaitTimeout as e:
          if log_failed:
              self._log_jobs()
          raise WaitTimeout from e
      return status

  def try_wait(self, timeout=None):
      status = self.wait(timeout=timeout)
      if status == "failed":
          raise TaskFailed
      return status
  \<close>
\<close>

definition wait_try :: "server \<Rightarrow> bool \<Rightarrow> string result list \<Rightarrow> log \<times> string result" where
  "wait_try srv log_failed polls =
     (case fst (wait_for_attr Task_END_STATUSES polls) of
        Inl e \<Rightarrow> ([], Inl e)
      | Inr st \<Rightarrow>
          if log_failed \<and> st = ''failed'' then
            (case log_jobs srv (Some st) of
               (out, Some e) \<Rightarrow> (out, Inl e)
             | (out, None) \<Rightarrow> (out, Inr st))
          else ([], Inr st))"

definition Task_wait :: "server \<Rightarrow> bool \<Rightarrow> string result list \<Rightarrow> log \<times> string result" where
  "Task_wait srv log_failed polls =
     (case wait_try srv log_failed polls of
        (out, Inl WaitTimeout) \<Rightarrow>
          if log_failed then
            (case log_jobs srv None of
               (out', Some e) \<Rightarrow> (out @ out', Inl e)
             | (out', None) \<Rightarrow> (out @ out', Inl WaitTimeout))
          else (out, Inl WaitTimeout)
      | r \<Rightarrow> r)"

definition Task_try_wait :: "server \<Rightarrow> string result list \<Rightarrow> log \<times> string result" where
  "Task_try_wait srv polls =
     (case Task_wait srv True polls of
        (out, Inr st) \<Rightarrow> if st = ''failed'' then (out, Inl TaskFailed) else (out, Inr st)
      | r \<Rightarrow> r)"

section \<open>Action\<close>

text \<open>Python's \<open>sub in s\<close> on strings.\<close>

fun contains :: "string \<Rightarrow> string \<Rightarrow> bool" where
  "contains sub [] = (sub = [])"
| "contains sub (c # s) = (prefix sub (c # s) \<or> contains sub s)"

text \<open>
  \<^verbatim>\<open>
  def run(self, **args):
      ...
      if 'config' in args and 'config_diff' in args:
          raise TypeError("only one argument is expected 'config' or 'config_diff'")
      if 'config' not in args:
          args['config'] = self._get_config()
          if 'config_diff' in args:
              config_diff = args.pop('config_diff')
              ...
      if rpm.compare_versions(self.adcm_version, '2021.02.04.13') >= 0:
          args.setdefault('verbose', False)
      elif 'verbose' in args:
          args.pop('verbose')
      try:
          data = self._subcall("run", "create", **args)
      except ErrorMessage as error:
          if (getattr(error.error, 'title', '') == '409 Conflict'
                  and 'has issues' in getattr(error.error, '_data', {}).get('desc', '')):
              raise ActionHasIssues from error
          raise error
      return Task(self._api, task_id=data["id"])
  \<close>
  The config built from the action's own config description (and from \<open>config_diff\<close>,
  when given) is the parameter \<open>build_config\<close>; \<open>subcall\<close> is the server's answer to the
  run request with the final arguments. The result is the id of the new task.
\<close>

definition has_issues :: "transport_error \<Rightarrow> bool" where
  "has_issues error =
     ((case title error of None \<Rightarrow> [] | Some t \<Rightarrow> t) = ''409 Conflict'' \<and>
      contains ''has issues''
        (case map_of (case data error of None \<Rightarrow> [] | Some d \<Rightarrow> d) ''desc'' of
           None \<Rightarrow> []
         | Some desc \<Rightarrow> desc))"

definition run_request :: "(dict \<Rightarrow> dict result) \<Rightarrow> dict \<Rightarrow> json result" where
  "run_request subcall args =
     (case subcall args of
        Inl (ErrorMessage error) \<Rightarrow>
          if has_issues error then Inl ActionHasIssues else Inl (ErrorMessage error)
      | Inl e \<Rightarrow> Inl e
      | Inr answer \<Rightarrow>
          (case map_of answer ''id'' of None \<Rightarrow> Inl (KeyError ''id'') | Some i \<Rightarrow> Inr i))"

definition run_args :: "string \<Rightarrow> (json option \<Rightarrow> json result) \<Rightarrow> dict \<Rightarrow> dict result" where
  "run_args adcm_version build_config args =
     (if ''config'' \<in> fst ` set args \<and> ''config_diff'' \<in> fst ` set args then
        Inl (TypeError (''only one argument is expected 'config' or 'config_diff'' @ [CHR 0x27]))
      else
        (case (if ''config'' \<notin> fst ` set args then
                 (case build_config (map_of args ''config_diff'') of
                    Inl e \<Rightarrow> Inl e
                  | Inr c \<Rightarrow> Inr (AList.delete ''config_diff'' (AList.update ''config'' c args)))
               else Inr args) of
           Inl e \<Rightarrow> Inl e
         | Inr args' \<Rightarrow>
             if compare_versions adcm_version ''2021.02.04.13'' \<ge> 0 then
               Inr (if ''verbose'' \<in> fst ` set args' then args'
                    else AList.update ''verbose'' (JBool False) args')
             else Inr (AList.delete ''verbose'' args')))"

definition Action_run ::
  "string \<Rightarrow> (json option \<Rightarrow> json result) \<Rightarrow> (dict \<Rightarrow> dict result) \<Rightarrow> dict \<Rightarrow> json result" where
  "Action_run adcm_version build_config subcall args =
     (case run_args adcm_version build_config args of
        Inl e \<Rightarrow> Inl e
      | Inr args' \<Rightarrow> run_request subcall args')"

section \<open>Config\<close>

text \<open>
  \<^verbatim>\<open>
  def config(self, full=False):
      history_entry = self._subcall("config", "current", "list")
      if full:
          return history_entry
      return history_entry['config']

  def config_set(self, data):
      if "config" in data and "attr" in data:
          if data["attr"] is None:
              data["attr"] = {}
          history_entry = self._subcall(
              'config', 'history', 'create', config=data['config'], attr=data['attr'])
          return {key: value for key, value in history_entry.items() if key in ['config', 'attr']}
      history_entry = self._subcall('config', 'history', 'create', config=data)
      return history_entry['config']

  def config_set_diff(self, data):
      ...
      is_full = "config" in data and "attr" in data
      config = self.config(full=is_full)
      return self.config_set(update(config, data))
  \<close>
  \<open>current\<close> is the server's answer to \<open>config/current/list\<close>, \<open>create\<close> its answer to
  \<open>config/history/create\<close> with the given keyword arguments. Each function returns its
  result and the keyword arguments of the create requests it sent.

  The config the server returns need not be a mapping. \<open>update(config, data)\<close> returns
  its first argument untouched when \<open>data\<close> has no items; with items, every path through
  the loop body tests membership in, subscripts or assigns into the first argument by a
  string key, which raises \<open>TypeError\<close> unless it is a mapping. In \<open>config_set\<close>,
  \<open>"config" in data\<close> is a key test on a mapping, a substring test on a string, a
  membership test on a list and a \<open>TypeError\<close> on anything else; when both tests
  succeed on a string or a list, \<open>data["attr"]\<close> raises \<open>TypeError\<close>.
\<close>

definition config :: "dict result \<Rightarrow> bool \<Rightarrow> json result" where
  "config current full =
     (case current of
        Inl e \<Rightarrow> Inl e
      | Inr history_entry \<Rightarrow>
          if full then Inr (JObj history_entry)
          else (case map_of history_entry ''config'' of
                  None \<Rightarrow> Inl (KeyError ''config'')
                | Some c \<Rightarrow> Inr c))"

definition lookup :: "dict \<Rightarrow> string \<Rightarrow> json" where
  "lookup d key = (case map_of d key of None \<Rightarrow> JNull | Some v \<Rightarrow> v)"

definition update_config :: "json \<Rightarrow> dict \<Rightarrow> json result" where
  "update_config d u =
     (if u = [] then Inr d
      else (case d of
              JObj cfg \<Rightarrow> Inr (JObj (update cfg u))
            | _ \<Rightarrow> Inl (TypeError ''not a mapping'')))"

definition config_create :: "(dict \<Rightarrow> dict result) \<Rightarrow> json \<Rightarrow> json result \<times> dict list" where
  "config_create create data_in =
     (let kwargs = [(''config'', data_in)]
      in (case create kwargs of
            Inl e \<Rightarrow> Inl e
          | Inr history_entry \<Rightarrow>
              (case map_of history_entry ''config'' of
                 None \<Rightarrow> Inl (KeyError ''config'')
               | Some c \<Rightarrow> Inr c),
          [kwargs]))"

definition config_set :: "(dict \<Rightarrow> dict result) \<Rightarrow> json \<Rightarrow> json result \<times> dict list" where
  "config_set create data_in =
     (case data_in of
        JObj d \<Rightarrow>
          if ''config'' \<in> fst ` set d \<and> ''attr'' \<in> fst ` set d then
            (let data_full = (if lookup d ''attr'' = JNull
                              then AList.update ''attr'' (JObj []) d else d);
                 kwargs = [(''config'', lookup data_full ''config''),
                           (''attr'', lookup data_full ''attr'')]
             in (case create kwargs of
                   Inl e \<Rightarrow> Inl e
                 | Inr history_entry \<Rightarrow>
                     Inr (JObj (filter (\<lambda>(key, v). key \<in> set [''config'', ''attr'']) history_entry)),
                 [kwargs]))
          else config_create create data_in
      | JStr s \<Rightarrow>
          if contains ''config'' s \<and> contains ''attr'' s
          then (Inl (TypeError ''string indices must be integers''), [])
          else config_create create data_in
      | JList l \<Rightarrow>
          if JStr ''config'' \<in> set l \<and> JStr ''attr'' \<in> set l
          then (Inl (TypeError ''list indices must be integers''), [])
          else config_create create data_in
      | _ \<Rightarrow> (Inl (TypeError ''argument is not iterable''), []))"

definition config_set_diff ::
  "dict result \<Rightarrow> (dict \<Rightarrow> dict result) \<Rightarrow> dict \<Rightarrow> json result \<times> dict list" where
  "config_set_diff current create data_in =
     (let is_full = (''config'' \<in> fst ` set data_in \<and> ''attr'' \<in> fst ` set data_in) in
      case config current is_full of
        Inl e \<Rightarrow> (Inl e, [])
      | Inr cfg \<Rightarrow>
          (case update_config cfg data_in of
             Inl e \<Rightarrow> (Inl e, [])
           | Inr merged \<Rightarrow> config_set create merged))"

section \<open>Client\<close>

text \<open>
  \<^verbatim>\<open>
  _MIN_VERSION = "2019.02.20.00"

  def __init__(self, api=None, url=None, user=None, password=None):
      if api is not None:
          self._api = api
          self.url = api.url
          if self.api_token() is None:
              self.auth(user, password)
      else:
          self.url = url
          self._api = ADCMApiWrapper(self.url)
          self.auth(user, password)
      if self.api_token() is not None:
          self.guess_adcm_url()
      self.adcm_version = self._api.adcm_version
      self._check_min_version()

  def auth(self, user=None, password=None):
      if user is None or password is None:
          raise NoCredentionsProvided
      self._api.auth(user, password)
      if self.api_token() is None:
          raise ADCMApiError("Incorrect user/password. Unable to auth.")
      self._check_min_version()

  def _check_min_version(self):
      if rpm.compare_versions(self._MIN_VERSION, self._api.adcm_version) > -1:
          raise ADCMApiError(
              "The client supports ADCM versions newer than '{}'".format(self._MIN_VERSION))
  \<close>
  \<open>api_auth\<close> is the outcome of the wrapper's login: an exception, or the token the
  wrapper holds afterwards. \<open>token\<close> is the token of the wrapper handed to the
  constructor (none for a fresh wrapper), \<open>guess\<close> the outcome of \<open>guess_adcm_url\<close>.
\<close>

definition MIN_VERSION :: string where
  "MIN_VERSION = ''2019.02.20.00''"

definition too_old_message :: string where
  "too_old_message =
     ''The client supports ADCM versions newer than '' @ [CHR 0x27] @ MIN_VERSION @ [CHR 0x27]"

definition check_min_version :: "string \<Rightarrow> unit result" where
  "check_min_version adcm_version =
     (if compare_versions MIN_VERSION adcm_version > -1 then
        Inl (ADCMApiError too_old_message)
      else Inr ())"

definition auth ::
  "string \<Rightarrow> (string \<Rightarrow> string \<Rightarrow> string option result) \<Rightarrow> string option \<Rightarrow> string option \<Rightarrow> unit result" where
  "auth adcm_version api_auth user password =
     (case (user, password) of
        (Some u, Some p) \<Rightarrow>
          (case api_auth u p of
             Inl e \<Rightarrow> Inl e
           | Inr None \<Rightarrow> Inl (ADCMApiError ''Incorrect user/password. Unable to auth.'')
           | Inr (Some tok) \<Rightarrow> check_min_version adcm_version)
      | _ \<Rightarrow> Inl NoCredentionsProvided)"

text \<open>A login that accepts every user and hands out a token.\<close>

definition accept_login :: "string \<Rightarrow> string \<Rightarrow> string option result" where
  "accept_login u p = Inr (Some ''token'')"

definition init ::
  "string \<Rightarrow> (string \<Rightarrow> string \<Rightarrow> string option result) \<Rightarrow> unit result \<Rightarrow> string option \<Rightarrow>
   string option \<Rightarrow> string option \<Rightarrow> unit result" where
  "init adcm_version api_auth guess token user password =
     (case (if token = None then auth adcm_version api_auth user password else Inr ()) of
        Inl e \<Rightarrow> Inl e
      | Inr _ \<Rightarrow>
          (case guess of
             Inl e \<Rightarrow> Inl e
           | Inr _ \<Rightarrow> check_min_version adcm_version))"

section \<open>Example servers\<close>

text \<open>
  A server whose task has no jobs; one whose failed job has a log file that cannot be
  fetched for a reason other than a missing log; and one whose failed job has two log
  files, the first of which the server reports as \<open>LOG_NOT_FOUND\<close>.
\<close>

definition quiet :: server where
  "quiet = \<lparr>jobs = [], client_get = (\<lambda>url. Inl ObjectNotFound),
            action_name = Inr ''install'', stack_action_name = Inr ''install''\<rparr>"

definition failing_logs :: server where
  "failing_logs =
     \<lparr>jobs = [\<lparr>status = ''failed'', log_files = [''/job/1/log/1'']\<rparr>],
      client_get = (\<lambda>url. Inl (ErrorMessage (Transport_Error (Some ''500 Internal Server Error'')
                                 (Some [(''code'', ''SERVER_ERROR'')])))),
      action_name = Inr ''install'', stack_action_name = Inr ''install''\<rparr>"

definition one_log_missing :: server where
  "one_log_missing =
     \<lparr>jobs = [\<lparr>status = ''failed'', log_files = [''/job/1/log/1'', ''/job/1/log/2'']\<rparr>],
      client_get = (\<lambda>url. if url = ''/job/1/log/1''
                           then Inl (ErrorMessage (Transport_Error (Some ''404 Not Found'')
                                  (Some [(''code'', ''LOG_NOT_FOUND'')])))
                           else Inr [(''type'', JStr ''stderr''), (''format'', JStr ''txt''),
                                     (''content'', JStr ''boom'')]),
      action_name = Inr ''install'', stack_action_name = Inr ''install''\<rparr>"

section \<open>Properties of the merge\<close>

lemma update_Cons: "update d ((key, value) # u) = update (AList.update key (stored d key value) d) u"
  by (cases "value") (simp_all add: stored_def split: option.split json.split)

lemma update_absent:
  "key \<notin> fst ` set u \<Longrightarrow> map_of (update d u) key = map_of d key"
proof (induction u arbitrary: d)
  case Nil
  show ?case by simp
next
  case (Cons kv u)
  obtain k v where kv: "kv = (k, v)" by (cases kv)
  from Cons.prems kv have "key \<noteq> k" "key \<notin> fst ` set u" by auto
  then show ?case
    by (simp add: kv update_Cons Cons.IH update_conv')
qed

lemma update_present:
  "distinct (map fst u) \<Longrightarrow> (key, value) \<in> set u \<Longrightarrow>
   map_of (update d u) key = Some (stored d key value)"
proof (induction u arbitrary: d)
  case Nil
  then show ?case by simp
next
  case (Cons kv u)
  obtain k v where kv: "kv = (k, v)" by (cases kv)
  show ?case
  proof (cases "(key, value) = kv")
    case True
    with kv Cons.prems have "key \<notin> fst ` set u" by auto
    with True kv show ?thesis
      by (simp add: update_Cons update_absent update_conv')
  next
    case False
    with Cons.prems kv have in_u: "(key, value) \<in> set u" and d: "distinct (map fst u)"
      and "k \<notin> fst ` set u" by auto
    then have ne: "key \<noteq> k" by force
    have "stored (AList.update k (stored d k v) d) key value = stored d key value"
      using ne by (cases "value") (simp_all add: stored_def update_conv')
    with Cons.IH[OF d in_u] show ?thesis
      by (simp add: kv update_Cons)
  qed
qed

lemma keys_AList_update:
  "map fst (AList.update k v d) = (if k \<in> fst ` set d then map fst d else map fst d @ [k])"
  by (induction d) auto

lemma update_keys:
  "distinct (map fst u) \<Longrightarrow>
   map fst (update d u) = map fst d @ filter (\<lambda>k. k \<notin> fst ` set d) (map fst u)"
proof (induction u arbitrary: d)
  case Nil
  show ?case by simp
next
  case (Cons kv u)
  obtain k v where kv: "kv = (k, v)" by (cases kv)
  from Cons.prems kv have d: "distinct (map fst u)" and nk: "k \<notin> fst ` set u" by auto
  let ?d = "AList.update k (stored d k v) d"
  have keys: "fst ` set ?d = insert k (fst ` set d)"
    using arg_cong[OF keys_AList_update[of k "stored d k v" d], of set]
    by (auto simp: image_iff)
  have f: "filter (\<lambda>x. x \<notin> fst ` set ?d) (map fst u) = filter (\<lambda>x. x \<notin> fst ` set d) (map fst u)"
    using nk by (intro filter_cong) (auto simp: keys)
  show ?case
    using Cons.IH[OF d, of ?d]
    by (simp add: kv update_Cons f keys_AList_update)
qed

text \<open>
  C9. The merge keeps the value of every key of the original config that the diff does
  not mention. For a key of the diff (its keys are distinct, as in any dict), the merged
  config holds the recursive merge of the old and the new value when both are mappings,
  and the new value otherwise.
\<close>

theorem update_merge:
  "distinct (map fst u) \<Longrightarrow>
     (key \<notin> fst ` set u \<longrightarrow> map_of (update d u) key = map_of d key) \<and>
     (\<forall>value. (key, value) \<in> set u \<longrightarrow>
        map_of (update d u) key =
          Some (case value of
                  JObj new \<Rightarrow>
                    (case map_of d key of
                       Some (JObj old) \<Rightarrow> JObj (update old new)
                     | _ \<Rightarrow> value)
                | _ \<Rightarrow> value))"
  using update_absent[of key u d] update_present[of u key _ d]
  by (simp add: stored_def)

theorem update_merge_witness:
  "distinct (map fst [(''a'', JObj [(''y'', JInt 5)]), (''b'', JInt 7), (''c'', JNull)]) \<and>
   map_of (update [(''a'', JObj [(''x'', JInt 1), (''y'', JInt 2)]), (''b'', JObj []), (''k'', JInt 3)]
             [(''a'', JObj [(''y'', JInt 5)]), (''b'', JInt 7), (''c'', JNull)]) ''k'' = Some (JInt 3) \<and>
   map_of (update [(''a'', JObj [(''x'', JInt 1), (''y'', JInt 2)]), (''b'', JObj []), (''k'', JInt 3)]
             [(''a'', JObj [(''y'', JInt 5)]), (''b'', JInt 7), (''c'', JNull)]) ''a'' =
     Some (JObj [(''x'', JInt 1), (''y'', JInt 5)]) \<and>
   map_of (update [(''a'', JObj [(''x'', JInt 1), (''y'', JInt 2)]), (''b'', JObj []), (''k'', JInt 3)]
             [(''a'', JObj [(''y'', JInt 5)]), (''b'', JInt 7), (''c'', JNull)]) ''b'' = Some (JInt 7)"
proof -
  let ?u = "[(''a'', JObj [(''y'', JInt 5)]), (''b'', JInt 7), (''c'', JNull)]"
  let ?d = "[(''a'', JObj [(''x'', JInt 1), (''y'', JInt 2)]), (''b'', JObj []), (''k'', JInt 3)]"
  have h: "distinct (map fst ?u)" by simp
  from update_merge[OF h, of "''k''" ?d] update_merge[OF h, of "''a''" ?d]
    update_merge[OF h, of "''b''" ?d]
  show ?thesis by simp
qed

section \<open>Properties of \<open>config_set_diff\<close>\<close>

text \<open>
  With an empty diff the loop of \<open>update\<close> does not run, and the config read is handed to
  \<open>config_set\<close> as it is. Unless it has both a key \<open>config\<close> and a key \<open>attr\<close>, it is
  written back unchanged.
\<close>

lemma config_set_diff_empty_any:
  assumes "current = Inr history_entry"
    and "map_of history_entry ''config'' = Some cfg"
  shows "config_set_diff current create [] = config_set create cfg"
  using assms by (simp add: config_set_diff_def config_def update_config_def)

lemma config_set_diff_empty:
  assumes "current = Inr history_entry"
    and "map_of history_entry ''config'' = Some (JObj cfg)"
    and "\<not> (''config'' \<in> fst ` set cfg \<and> ''attr'' \<in> fst ` set cfg)"
  shows "snd (config_set_diff current create []) = [[(''config'', JObj cfg)]]"
  using assms(3) unfolding config_set_diff_empty_any[OF assms(1,2)]
  by (auto simp: config_set_def config_create_def Let_def)

lemma config_set_diff_empty_not_a_mapping:
  "snd (config_set_diff (Inr [(''config'', JStr ''none'')]) (\<lambda>kwargs. Inr kwargs) []) =
     [[(''config'', JStr ''none'')]]"
  "config_set_diff (Inr [(''config'', JNull)]) (\<lambda>kwargs. Inr kwargs) [] =
     (Inl (TypeError ''argument is not iterable''), [])"
  by (simp_all add: config_set_diff_def config_def update_config_def config_set_def
      config_create_def Let_def)

text \<open>
  C5. A current config that has entries named \<open>config\<close> and \<open>attr\<close> itself is taken by
  \<open>config_set\<close> for a full document: with an empty diff, the request carries the value
  of its \<open>config\<close> entry as the config and its \<open>attr\<close> entry as the attributes, which is
  not the config that was read.
\<close>

theorem config_set_diff_empty_rewrites_config:
  "snd (config_set_diff
          (Inr [(''id'', JInt 1),
                (''config'', JObj [(''config'', JObj [(''port'', JInt 80)]), (''attr'', JNull)]),
                (''attr'', JObj [])])
          (\<lambda>kwargs. Inr kwargs) [])
   = [[(''config'', JObj [(''port'', JInt 80)]), (''attr'', JObj [])]] \<and>
   [[(''config'', JObj [(''port'', JInt 80)]), (''attr'', JObj [])]] \<noteq>
   [[(''config'', JObj [(''config'', JObj [(''port'', JInt 80)]), (''attr'', JNull)])]]"
  by (simp add: config_set_diff_def config_def update_config_def config_set_def Let_def
      lookup_def)

section \<open>Properties of the version order\<close>

lemma compare_keys_swap: "compare_keys b a = - compare_keys a b"
  by (induction a b rule: compare_keys.induct) auto

lemma compare_keys_less_iff:
  "compare_keys a b < 0 \<longleftrightarrow> (a, b) \<in> lexord {(x, y). x < y}"
proof (induction a b rule: compare_keys.induct)
  case 1
  show ?case by simp
next
  case (2 y ys)
  show ?case by simp
next
  case (3 x xs)
  show ?case by simp
next
  case (4 x xs y ys)
  show ?case
  proof (cases "x < y")
    case True
    then show ?thesis by simp
  next
    case False
    note nlt = this
    show ?thesis
    proof (cases "y < x")
      case True
      with nlt show ?thesis by simp
    next
      case False
      with nlt have "x = y" by simp
      with 4 show ?thesis by simp
    qed
  qed
qed

lemma compare_versions_swap: "compare_versions b a = - compare_versions a b"
  unfolding compare_versions_def by (rule compare_keys_swap)

lemma min_version_itself: "compare_versions MIN_VERSION MIN_VERSION = 0"
  by (simp add: compare_versions_def version_key_def number_def is_digit_def MIN_VERSION_def)

section \<open>Properties of the Version Gate\<close>

text \<open>
  C3. The gate selects the legacy implementation exactly when the key of the server
  version is below the key of the threshold in the lexicographic order of the numeric
  components, and the modern one otherwise; the decorated function runs the
  implementation selected. The choice is a function of the two versions alone.
  \<open>Cluster.service\<close> and \<open>Cluster.service_list\<close> address the service as a subobject of
  the cluster exactly when the server version compares below \<open>2020.09.25.13\<close>, which is
  also when \<open>__new__\<close> leaves the instance without a \<open>PATH\<close>.
\<close>

theorem version_gate_select:
  "select server_version threshold_version =
     (if (version_key server_version, version_key threshold_version) \<in> lexord {(x, y). x < y}
      then Legacy else Modern) \<and>
   legacy_server_implementaion oldfunc threshold_version newfunc server_version x =
     (if compare_versions server_version threshold_version < 0 then oldfunc x else newfunc x) \<and>
   Cluster_service server_version self args =
     (if compare_versions server_version ''2020.09.25.13'' < 0
      then Subobject self Service None args
      else Child_obj self Service (Some [''service'']) args) \<and>
   Cluster_service_list server_version self args =
     (if compare_versions server_version ''2020.09.25.13'' < 0
      then Subobject self ServiceList None args
      else Child_obj self ServiceList (Some [''service'']) args)"
  by (simp add: select_def legacy_server_implementaion_def Cluster_service_def
      Cluster_service_list_def service_old_def service_list_old_def Service_new_def
      compare_versions_def compare_keys_less_iff)

lemma Cluster_service_examples:
  "Cluster_service ''2020.09.25.12'' c [] = Subobject c Service None []"
  "Cluster_service ''2020.09.25.13'' c [] = Child_obj c Service (Some [''service'']) []"
  "Cluster_service ''2020.10.01.00'' c [] = Child_obj c Service (Some [''service'']) []"
  "Cluster_service ''2020.9.25.2'' c [] = Subobject c Service None []"
  by (simp_all add: select_def legacy_server_implementaion_def Cluster_service_def
      service_old_def Service_new_def
      compare_versions_def version_key_def number_def is_digit_def)

section \<open>Properties of the client's version check\<close>

text \<open>
  C10, as the claim states it, fails at a server of exactly the minimum version: the
  constructor and \<open>auth\<close>, called without a user or a password, raise
  \<open>NoCredentionsProvided\<close> before any version is looked at, and the constructor handed an
  authenticated wrapper runs \<open>guess_adcm_url\<close> before the check, whose exception comes
  first.
\<close>

theorem init_raises_before_version_check:
  "compare_versions MIN_VERSION MIN_VERSION \<le> 0 \<and>
   init MIN_VERSION accept_login (Inr ()) None None None = Inl NoCredentionsProvided \<and>
   auth MIN_VERSION accept_login None None = Inl NoCredentionsProvided \<and>
   init MIN_VERSION accept_login (Inl ObjectNotFound) (Some ''token'') None None =
     Inl ObjectNotFound"
  by (simp add: init_def auth_def min_version_itself)

text \<open>
  C10, amended. When the server's version compares less than or equal to
  \<open>_MIN_VERSION\<close>, \<open>_check_min_version\<close> raises \<open>ADCMApiError\<close>: a server at exactly the
  minimum version is rejected, not accepted. \<open>auth\<close> and the constructor raise that
  error whenever they get as far as the check: \<open>auth\<close> when a user and a password are
  given and the login yields a token, the constructor when its login does so or it is
  handed an authenticated wrapper and \<open>guess_adcm_url\<close> completes.
\<close>

theorem check_min_version_rejects:
  "compare_versions adcm_version MIN_VERSION \<le> 0 \<Longrightarrow>
     check_min_version adcm_version = Inl (ADCMApiError too_old_message) \<and>
     (api_auth u p = Inr (Some tok) \<longrightarrow>
        auth adcm_version api_auth (Some u) (Some p) = Inl (ADCMApiError too_old_message) \<and>
        init adcm_version api_auth guess None (Some u) (Some p) = Inl (ADCMApiError too_old_message)) \<and>
     (guess = Inr () \<longrightarrow>
        init adcm_version api_auth guess (Some tok) user password = Inl (ADCMApiError too_old_message))"
proof -
  assume "compare_versions adcm_version MIN_VERSION \<le> 0"
  then have "compare_versions MIN_VERSION adcm_version > -1"
    using compare_versions_swap[of adcm_version MIN_VERSION] by simp
  then have c: "check_min_version adcm_version = Inl (ADCMApiError too_old_message)"
    by (simp add: check_min_version_def)
  show ?thesis
    by (simp add: c auth_def init_def)
qed

theorem check_min_version_rejects_witness:
  "compare_versions MIN_VERSION MIN_VERSION \<le> 0 \<and>
   check_min_version ''2019.02.20.00'' = Inl (ADCMApiError too_old_message) \<and>
   auth MIN_VERSION (\<lambda>u p. Inr (Some ''token'')) (Some ''admin'') (Some ''admin'') =
     Inl (ADCMApiError too_old_message) \<and>
   init MIN_VERSION (\<lambda>u p. Inr (Some ''token'')) (Inr ()) None (Some ''admin'') (Some ''admin'') =
     Inl (ADCMApiError too_old_message) \<and>
   init MIN_VERSION (\<lambda>u p. Inr (Some ''token'')) (Inr ()) (Some ''token'') None None =
     Inl (ADCMApiError too_old_message)"
proof -
  have h: "compare_versions MIN_VERSION MIN_VERSION \<le> 0"
    by (simp add: min_version_itself)
  from check_min_version_rejects[OF h, of "\<lambda>u p. Inr (Some ''token'')" "''admin''" "''admin''"
      "''token''" "Inr ()" None None]
  show ?thesis using h by (simp add: MIN_VERSION_def)
qed

section \<open>Properties of the operations with a minimum server version\<close>

lemma min_server_version_below:
  "compare_versions adcm_version version < 0 \<Longrightarrow>
   min_server_version version func adcm_version s = (Inl VersionMismatch, s)"
  by (simp add: min_server_version_def)

lemma min_server_version_reached:
  "\<not> compare_versions adcm_version version < 0 \<Longrightarrow>
   min_server_version version func adcm_version s = func s"
  by (simp add: min_server_version_def)

text \<open>
  C6. \<open>ServicePrototype.service_list\<close> against a server below \<open>2020.09.25.13\<close> and
  \<open>Cluster.service_delete\<close> against a server below \<open>2020.05.13.00\<close> fail with the
  version-mismatch error, which is not \<open>ObjectNotFound\<close>, and leave the sequence of
  requests sent as it was: the guarded operation has not run.
\<close>

theorem min_server_version_guards:
  "(compare_versions adcm_version ''2020.09.25.13'' < 0 \<longrightarrow>
      ServicePrototype_service_list child_obj args adcm_version sent = (Inl VersionMismatch, sent)) \<and>
   (compare_versions adcm_version ''2020.05.13.00'' < 0 \<longrightarrow>
      Cluster_service_delete subcall service_id adcm_version sent = (Inl VersionMismatch, sent)) \<and>
   VersionMismatch \<noteq> ObjectNotFound"
  by (simp add: ServicePrototype_service_list_def Cluster_service_delete_def
      min_server_version_below)

theorem min_server_version_guards_witness:
  "compare_versions ''2020.05.12.00'' ''2020.09.25.13'' < 0 \<and>
   compare_versions ''2020.05.12.00'' ''2020.05.13.00'' < 0 \<and>
   ServicePrototype_service_list (\<lambda>args. send (\<lambda>req. Inl ObjectNotFound) ([''service'', ''list''], args))
     [] ''2020.05.12.00'' [] = (Inl VersionMismatch, []) \<and>
   Cluster_service_delete (send (\<lambda>req. Inr JNull)) 4 ''2020.05.12.00'' [] = (Inl VersionMismatch, [])"
proof -
  have h1: "compare_versions ''2020.05.12.00'' ''2020.09.25.13'' < 0"
    by (simp add: compare_versions_def version_key_def number_def is_digit_def)
  have h2: "compare_versions ''2020.05.12.00'' ''2020.05.13.00'' < 0"
    by (simp add: compare_versions_def version_key_def number_def is_digit_def)
  from min_server_version_guards[of "''2020.05.12.00''"
      "\<lambda>args. send (\<lambda>req. Inl ObjectNotFound) ([''service'', ''list''], args)" "[]" "[]"
      "send (\<lambda>req. Inr JNull)" 4]
  show ?thesis using h1 h2 by simp
qed

text \<open>At the minimum version the guarded operation runs and its request is sent.\<close>

lemma guarded_operations_reached:
  "Cluster_service_delete (send (\<lambda>req. Inr JNull)) 4 ''2020.05.13.00'' [] =
     (Inr (), [([''service'', ''delete''], [(''service_id'', JInt 4)])])"
  "ServicePrototype_service_list (\<lambda>args. send (\<lambda>req. Inl ObjectNotFound) ([''service'', ''list''], args))
     [] ''2020.09.25.13'' [] = (Inl ObjectNotFound, [([''service'', ''list''], [])])"
  by (simp_all add: ServicePrototype_service_list_def Cluster_service_delete_def
      min_server_version_def send_def
      compare_versions_def version_key_def number_def is_digit_def)

section \<open>Properties of \<open>Task.action\<close>\<close>

lemma version_examples:
  "compare_versions ''2020.08.26.00'' ''2020.08.27.00'' < 0"
  "compare_versions ''2020.09.01.00'' ''2020.08.27.00'' \<ge> 0"
  "compare_versions ''2020.09.01.00'' ''2020.09.25.13'' < 0"
  "compare_versions ''2020.09.25.13'' ''2020.08.27.00'' \<ge> 0"
  "compare_versions ''2020.09.25.13'' ''2020.09.25.13'' \<ge> 0"
  "compare_versions ''2021.03.12.15'' ''2020.08.27.00'' \<ge> 0"
  "compare_versions ''2021.03.12.15'' ''2021.03.12.16'' < 0"
  "compare_versions ''2021.03.12.16'' ''2020.08.27.00'' \<ge> 0"
  "compare_versions ''2021.03.12.16'' ''2021.03.12.16'' \<ge> 0"
  by (simp_all add: compare_versions_def version_key_def number_def is_digit_def)

lemma Task_action_without_path:
  assumes "compare_versions adcm_version ''2020.08.27.00'' \<ge> 0"
    and "object_type self = ''service'' \<and> compare_versions adcm_version ''2020.09.25.13'' < 0 \<or>
         object_type self = ''component'' \<and> compare_versions adcm_version ''2021.03.12.16'' < 0"
  shows "Task_action adcm_version self s = (Inl (AttributeError ''PATH''), s)"
  using assms
  by (auto simp: Task_action_def Task_action_body_def min_server_version_def TASK_PARENT_def
      new_object_def Service_new_def Component_new_def)

text \<open>
  C8, as the claim states it, fails on a server older than \<open>2020.08.27.00\<close>: the call is
  refused by its version guard, whatever the task's \<open>object_type\<close>. It also fails for a
  task of a service on a server below \<open>2020.09.25.13\<close> and for a task of a component on
  a server below \<open>2021.03.12.16\<close>: there the owning class has no \<open>PATH\<close>, and the owner
  cannot be constructed from its id.
\<close>

theorem Task_action_old_server:
  "Task_action ''2020.08.26.00'' \<lparr>action_id = 7, object_id = 3, object_type = ''cluster''\<rparr> () =
     (Inl VersionMismatch, ()) \<and>
   Task_action ''2020.09.01.00'' \<lparr>action_id = 7, object_id = 3, object_type = ''service''\<rparr> () =
     (Inl (AttributeError ''PATH''), ()) \<and>
   Task_action ''2021.03.12.15'' \<lparr>action_id = 7, object_id = 3, object_type = ''component''\<rparr> () =
     (Inl (AttributeError ''PATH''), ())"
  by (simp add: Task_action_def Task_action_body_def min_server_version_def TASK_PARENT_def
      new_object_def Service_new_def Component_new_def version_examples not_less)

text \<open>
  C8, amended. On a server whose version is at least \<open>2020.08.27.00\<close>, and at least
  \<open>2020.09.25.13\<close> when the task belongs to a service, at least \<open>2021.03.12.16\<close> when it
  belongs to a component, for a task whose \<open>object_type\<close> is one of \<open>cluster\<close>,
  \<open>service\<close>, \<open>host\<close>, \<open>provider\<close>, \<open>component\<close>, \<open>Task.action\<close> looks the owning class
  up by that name, constructs the owner from the keyword argument
  \<open>object_type_id = object_id\<close>, which is the \<open>IDNAME\<close> of that class, and returns the
  owner's \<open>Action\<close> subobject with the task's \<open>action_id\<close>.
\<close>

theorem Task_action_reconstructs:
  "compare_versions adcm_version ''2020.08.27.00'' \<ge> 0 \<Longrightarrow>
   object_type self \<in> set [''cluster'', ''service'', ''host'', ''provider'', ''component''] \<Longrightarrow>
   (object_type self = ''service'' \<longrightarrow> compare_versions adcm_version ''2020.09.25.13'' \<ge> 0) \<Longrightarrow>
   (object_type self = ''component'' \<longrightarrow> compare_versions adcm_version ''2021.03.12.16'' \<ge> 0) \<Longrightarrow>
   \<exists>parent path. map_of TASK_PARENT (object_type self) = Some parent \<and>
     IDNAME parent = Some (object_type self @ ''_id'') \<and>
     PATH adcm_version parent = Some path \<and>
     Task_action adcm_version self s =
       (Inr (Subobject
               (New parent (Some path) [(object_type self @ ''_id'', JInt (object_id self))])
               Action None [(''action_id'', JInt (action_id self))]), s)"
  by (auto simp: Task_action_def Task_action_body_def min_server_version_def TASK_PARENT_def
      new_object_def Service_new_def Component_new_def)

theorem Task_action_reconstructs_witness:
  "Task_action ''2021.03.12.16'' \<lparr>action_id = 7, object_id = 3, object_type = ''component''\<rparr> () =
     (Inr (Subobject (New Component (Some [''component'']) [(''component_id'', JInt 3)])
             Action None [(''action_id'', JInt 7)]), ()) \<and>
   Task_action ''2020.09.25.13'' \<lparr>action_id = 8, object_id = 4, object_type = ''service''\<rparr> () =
     (Inr (Subobject (New Service (Some [''service'']) [(''service_id'', JInt 4)])
             Action None [(''action_id'', JInt 8)]), ())"
proof -
  let ?c = "\<lparr>action_id = 7, object_id = 3, object_type = ''component''\<rparr>"
  let ?s = "\<lparr>action_id = 8, object_id = 4, object_type = ''service''\<rparr>"
  have c1: "compare_versions ''2021.03.12.16'' ''2020.08.27.00'' \<ge> 0"
    by (rule version_examples)
  have c2: "object_type ?c \<in> set [''cluster'', ''service'', ''host'', ''provider'', ''component'']"
    by simp
  have c3: "object_type ?c = ''service'' \<longrightarrow> compare_versions ''2021.03.12.16'' ''2020.09.25.13'' \<ge> 0"
    by simp
  have c4: "object_type ?c = ''component'' \<longrightarrow> compare_versions ''2021.03.12.16'' ''2021.03.12.16'' \<ge> 0"
    by (simp add: version_examples)
  have s1: "compare_versions ''2020.09.25.13'' ''2020.08.27.00'' \<ge> 0"
    by (rule version_examples)
  have s2: "object_type ?s \<in> set [''cluster'', ''service'', ''host'', ''provider'', ''component'']"
    by simp
  have s3: "object_type ?s = ''service'' \<longrightarrow> compare_versions ''2020.09.25.13'' ''2020.09.25.13'' \<ge> 0"
    by (simp add: version_examples)
  have s4: "object_type ?s = ''component'' \<longrightarrow> compare_versions ''2020.09.25.13'' ''2021.03.12.16'' \<ge> 0"
    by simp
  have pc: "PATH ''2021.03.12.16'' Component = Some [''component'']"
    using version_examples(9) by (simp add: Component_new_def)
  have ps: "PATH ''2020.09.25.13'' Service = Some [''service'']"
    using version_examples(5) by (simp add: Service_new_def)
  from Task_action_reconstructs[OF c1 c2 c3 c4, of "()"] pc
  have a: "Task_action ''2021.03.12.16'' ?c () =
     (Inr (Subobject (New Component (Some [''component'']) [(''component_id'', JInt 3)])
             Action None [(''action_id'', JInt 7)]), ())"
    by (auto simp: TASK_PARENT_def)
  from Task_action_reconstructs[OF s1 s2 s3 s4, of "()"] ps
  have b: "Task_action ''2020.09.25.13'' ?s () =
     (Inr (Subobject (New Service (Some [''service'']) [(''service_id'', JInt 4)])
             Action None [(''action_id'', JInt 8)]), ())"
    by (auto simp: TASK_PARENT_def)
  from a b show ?thesis by simp
qed

section \<open>Properties of \<open>Action.run\<close>\<close>

lemma contains_iff_sublist: "contains sub s \<longleftrightarrow> sublist sub s"
  by (induction s) (simp_all add: sublist_Cons_right)

lemma has_issues_iff:
  "has_issues error \<longleftrightarrow>
     title error = Some ''409 Conflict'' \<and>
     (\<exists>d desc. data error = Some d \<and> map_of d ''desc'' = Some desc \<and> sublist ''has issues'' desc)"
  by (cases error)
     (auto simp: has_issues_def contains_iff_sublist split: option.splits)

lemma run_args_example:
  "run_args ''2021.02.04.13'' (\<lambda>diff. Inr (JObj [])) [] =
     Inr [(''config'', JObj []), (''verbose'', JBool False)]"
  by (simp add: run_args_def compare_versions_def version_key_def number_def is_digit_def)

lemma has_issues_example:
  "has_issues (Transport_Error (Some ''409 Conflict'')
      (Some [(''code'', ''TASK_ERROR''), (''desc'', ''action has issues'')]))"
  "\<not> has_issues (Transport_Error (Some ''409 Conflict'')
      (Some [(''code'', ''TASK_ERROR''), (''desc'', ''object is locked'')]))"
  "\<not> has_issues (Transport_Error (Some ''404 Not Found'')
      (Some [(''desc'', ''action has issues'')]))"
  by (simp_all add: has_issues_def)

text \<open>
  C7. When the run request fails with a transport error, \<open>Action.run\<close> raises
  \<open>ActionHasIssues\<close> exactly when the error's title is \<open>409 Conflict\<close> and its
  description contains \<open>has issues\<close>; in every other case it raises the transport error
  it received.
\<close>

theorem run_raises_ActionHasIssues:
  "run_args adcm_version build_config args = Inr args' \<Longrightarrow>
   subcall args' = Inl (ErrorMessage error) \<Longrightarrow>
   Action_run adcm_version build_config subcall args =
     (if title error = Some ''409 Conflict'' \<and>
         (\<exists>d desc. data error = Some d \<and> map_of d ''desc'' = Some desc \<and>
            sublist ''has issues'' desc)
      then Inl ActionHasIssues
      else Inl (ErrorMessage error))"
  by (simp add: Action_run_def run_request_def has_issues_iff)

theorem run_raises_ActionHasIssues_witness:
  "run_args ''2021.02.04.13'' (\<lambda>diff. Inr (JObj [])) [] =
     Inr [(''config'', JObj []), (''verbose'', JBool False)] \<and>
   Action_run ''2021.02.04.13'' (\<lambda>diff. Inr (JObj []))
     (\<lambda>a. Inl (ErrorMessage (Transport_Error (Some ''409 Conflict'')
        (Some [(''code'', ''TASK_ERROR''), (''desc'', ''action has issues'')])))) [] =
     Inl ActionHasIssues \<and>
   Action_run ''2021.02.04.13'' (\<lambda>diff. Inr (JObj []))
     (\<lambda>a. Inl (ErrorMessage (Transport_Error (Some ''409 Conflict'')
        (Some [(''code'', ''TASK_ERROR''), (''desc'', ''object is locked'')])))) [] =
     Inl (ErrorMessage (Transport_Error (Some ''409 Conflict'')
        (Some [(''code'', ''TASK_ERROR''), (''desc'', ''object is locked'')])))"
proof -
  let ?e1 = "Transport_Error (Some ''409 Conflict'')
        (Some [(''code'', ''TASK_ERROR''), (''desc'', ''action has issues'')])"
  let ?e2 = "Transport_Error (Some ''409 Conflict'')
        (Some [(''code'', ''TASK_ERROR''), (''desc'', ''object is locked'')])"
  have h: "run_args ''2021.02.04.13'' (\<lambda>diff. Inr (JObj [])) [] =
     Inr [(''config'', JObj []), (''verbose'', JBool False)]"
    by (rule run_args_example)
  have s1: "sublist ''has issues'' ''action has issues''"
    using has_issues_example(1) by (simp add: has_issues_iff)
  have s2: "\<not> sublist ''has issues'' ''object is locked''"
    using has_issues_example(2) by (simp add: has_issues_iff)
  from run_raises_ActionHasIssues[OF h, of "\<lambda>a. Inl (ErrorMessage ?e1)" ?e1]
    run_raises_ActionHasIssues[OF h, of "\<lambda>a. Inl (ErrorMessage ?e2)" ?e2]
  show ?thesis using h s1 s2 by simp
qed

section \<open>Properties of polling\<close>

lemma wait_for_attr_reaches:
  "\<forall>r \<in> set pre. \<exists>v. r = Inr v \<and> v \<notin> set values \<Longrightarrow> st \<in> set values \<Longrightarrow>
   wait_for_attr values (pre @ Inr st # post) = (Inr st, Suc (length pre))"
  by (induction pre) auto

lemma wait_for_attr_timeout:
  "\<forall>r \<in> set pre. \<exists>v. r = Inr v \<and> v \<notin> set values \<Longrightarrow>
   wait_for_attr values pre = (Inl WaitTimeout, length pre)"
  by (induction pre) auto

lemma wait_for_attr_error:
  "\<forall>r \<in> set pre. \<exists>v. r = Inr v \<and> v \<notin> set values \<Longrightarrow>
   wait_for_attr values (pre @ Inl e # post) = (Inl e, Suc (length pre))"
  by (induction pre) auto

lemma wait_for_attr_terminal:
  "wait_for_attr values polls = (Inr st, n) \<Longrightarrow> st \<in> set values"
  by (induction polls arbitrary: n rule: wait_for_attr.induct[where ?a0.0 = "values"])
     (auto split: if_splits prod.splits)

text \<open>
  C2, as the claim states it, fails for the status \<open>aborted\<close>: it is not among the end
  statuses of \<open>Task\<close> or \<open>Job\<close>, so polling goes on past it and ends in \<open>WaitTimeout\<close>.
\<close>

theorem wait_aborted_not_terminal:
  "Job_wait [Inr ''running'', Inr ''aborted'', Inr ''aborted''] = Inl WaitTimeout \<and>
   Task_wait quiet False [Inr ''running'', Inr ''aborted'', Inr ''aborted''] = ([], Inl WaitTimeout)"
  by (simp add: Job_wait_def Task_wait_def wait_try_def Job_END_STATUSES_def Task_END_STATUSES_def)

text \<open>
  C2, amended. When every status fetched so far is neither \<open>failed\<close> nor \<open>success\<close>
  (\<open>aborted\<close> included), a fetch that returns \<open>failed\<close> or \<open>success\<close> ends the polling
  of a \<open>Job\<close> and of a \<open>Task\<close> with that status, and no later fetch is made. The wait of
  a \<open>Job\<close> then returns the status, and so does the wait of a \<open>Task\<close>, with one proviso:
  at \<open>failed\<close>, a \<open>Task\<close> that logs its failed jobs (the default) returns the status
  provided that the log collection raises nothing. When the deadline comes first, the
  wait raises \<open>WaitTimeout\<close> (for a \<open>Task\<close> that logs its jobs on timeout, again provided
  that the log collection raises nothing).
\<close>

theorem wait_terminal_or_timeout:
  "\<forall>r \<in> set pre. \<exists>v. r = Inr v \<and> v \<noteq> ''failed'' \<and> v \<noteq> ''success'' \<Longrightarrow>
   (st = ''failed'' \<or> st = ''success'' \<longrightarrow>
      Job_wait (pre @ Inr st # post) = Inr st \<and>
      wait_for_attr Job_END_STATUSES (pre @ Inr st # post) = (Inr st, Suc (length pre)) \<and>
      wait_for_attr Task_END_STATUSES (pre @ Inr st # post) = (Inr st, Suc (length pre)) \<and>
      Task_wait srv False (pre @ Inr st # post) = ([], Inr st) \<and>
      (st = ''success'' \<longrightarrow> Task_wait srv True (pre @ Inr st # post) = ([], Inr st)) \<and>
      (st = ''failed'' \<and> snd (log_jobs srv (Some ''failed'')) = None \<longrightarrow>
         Task_wait srv True (pre @ Inr st # post) = (fst (log_jobs srv (Some ''failed'')), Inr st))) \<and>
   Job_wait pre = Inl WaitTimeout \<and>
   Task_wait srv False pre = ([], Inl WaitTimeout) \<and>
   (snd (log_jobs srv None) = None \<longrightarrow> snd (Task_wait srv True pre) = Inl WaitTimeout)"
proof -
  assume pre: "\<forall>r \<in> set pre. \<exists>v. r = Inr v \<and> v \<noteq> ''failed'' \<and> v \<noteq> ''success''"
  then have j: "\<forall>r \<in> set pre. \<exists>v. r = Inr v \<and> v \<notin> set Job_END_STATUSES"
    and t: "\<forall>r \<in> set pre. \<exists>v. r = Inr v \<and> v \<notin> set Task_END_STATUSES"
    by (simp_all add: Job_END_STATUSES_def Task_END_STATUSES_def)
  let ?polls = "pre @ Inr st # post"
  have reach: "Job_wait ?polls = Inr st \<and>
      wait_for_attr Job_END_STATUSES ?polls = (Inr st, Suc (length pre)) \<and>
      wait_for_attr Task_END_STATUSES ?polls = (Inr st, Suc (length pre)) \<and>
      Task_wait srv False ?polls = ([], Inr st) \<and>
      (st = ''success'' \<longrightarrow> Task_wait srv True ?polls = ([], Inr st)) \<and>
      (st = ''failed'' \<and> snd (log_jobs srv (Some ''failed'')) = None \<longrightarrow>
         Task_wait srv True ?polls = (fst (log_jobs srv (Some ''failed'')), Inr st))"
    if "st = ''failed'' \<or> st = ''success''"
  proof -
    from that have "st \<in> set Job_END_STATUSES" and tm: "st \<in> set Task_END_STATUSES"
      by (auto simp: Job_END_STATUSES_def Task_END_STATUSES_def)
    then have base: "Job_wait ?polls = Inr st \<and>
      wait_for_attr Job_END_STATUSES ?polls = (Inr st, Suc (length pre)) \<and>
      wait_for_attr Task_END_STATUSES ?polls = (Inr st, Suc (length pre)) \<and>
      Task_wait srv False ?polls = ([], Inr st)"
      using wait_for_attr_reaches[OF j, of st post] wait_for_attr_reaches[OF t, of st post]
      by (simp add: Job_wait_def Task_wait_def wait_try_def)
    then have w: "fst (wait_for_attr Task_END_STATUSES ?polls) = Inr st" by simp
    have ok: "Task_wait srv True ?polls = ([], Inr st)" if "st = ''success''"
      using that w by (simp add: Task_wait_def wait_try_def)
    have failed: "Task_wait srv True ?polls = (fst (log_jobs srv (Some ''failed'')), Inr st)"
      if "st = ''failed''" "snd (log_jobs srv (Some ''failed'')) = None"
      using that w
      by (cases "log_jobs srv (Some ''failed'')") (simp add: Task_wait_def wait_try_def)
    from base ok failed show ?thesis by blast
  qed
  have tj: "Job_wait pre = Inl WaitTimeout"
    using wait_for_attr_timeout[OF j] by (simp add: Job_wait_def)
  have tt: "wait_try srv log_failed pre = ([], Inl WaitTimeout)" for log_failed
    using wait_for_attr_timeout[OF t] by (simp add: wait_try_def)
  have t1: "Task_wait srv False pre = ([], Inl WaitTimeout)"
    by (simp add: Task_wait_def tt)
  have t2: "snd (Task_wait srv True pre) = Inl WaitTimeout" if "snd (log_jobs srv None) = None"
    using that by (cases "log_jobs srv None") (simp add: Task_wait_def tt)
  from reach tj t1 t2 show ?thesis by blast
qed

theorem wait_terminal_or_timeout_witness:
  "Job_wait [Inr ''created'', Inr ''running'', Inr ''aborted'', Inr ''success'', Inr ''running''] = Inr ''success'' \<and>
   wait_for_attr Task_END_STATUSES
     [Inr ''created'', Inr ''running'', Inr ''aborted'', Inr ''success'', Inr ''running''] = (Inr ''success'', 4) \<and>
   Task_wait one_log_missing True
     [Inr ''created'', Inr ''running'', Inr ''aborted'', Inr ''success'', Inr ''running''] = ([], Inr ''success'') \<and>
   Task_wait one_log_missing True
     [Inr ''created'', Inr ''running'', Inr ''aborted'', Inr ''failed'', Inr ''running''] =
     ([(Error, Action_line ''install''), (Error, Type_line (JStr ''stderr'')),
       (Error, Content (JStr ''boom''))], Inr ''failed'') \<and>
   Job_wait [Inr ''created'', Inr ''running'', Inr ''aborted''] = Inl WaitTimeout \<and>
   snd (Task_wait quiet True [Inr ''created'', Inr ''running'', Inr ''aborted'']) = Inl WaitTimeout"
proof -
  let ?pre = "[Inr ''created'', Inr ''running'', Inr ''aborted''] :: string result list"
  have h: "\<forall>r \<in> set ?pre. \<exists>v. r = Inr v \<and> v \<noteq> ''failed'' \<and> v \<noteq> ''success''"
    by simp
  have q: "snd (log_jobs quiet None) = None"
    by (simp add: log_jobs_def job_list_def quiet_def)
  have l: "log_jobs one_log_missing (Some ''failed'') =
     ([(Error, Action_line ''install''), (Error, Type_line (JStr ''stderr'')),
       (Error, Content (JStr ''boom''))], None)"
    by (simp add: log_jobs_def job_list_def one_log_missing_def get_action_name_def
        log_response_def)
  from wait_terminal_or_timeout[OF h, of "''success''" "[Inr ''running'']" one_log_missing]
  have a: "Job_wait (?pre @ [Inr ''success'', Inr ''running'']) = Inr ''success'' \<and>
     wait_for_attr Task_END_STATUSES (?pre @ [Inr ''success'', Inr ''running'']) = (Inr ''success'', 4) \<and>
     Task_wait one_log_missing True (?pre @ [Inr ''success'', Inr ''running'']) = ([], Inr ''success'')"
    by simp
  from wait_terminal_or_timeout[OF h, of "''failed''" "[Inr ''running'']" one_log_missing]
  have b: "Task_wait one_log_missing True (?pre @ [Inr ''failed'', Inr ''running'']) =
     ([(Error, Action_line ''install''), (Error, Type_line (JStr ''stderr'')),
       (Error, Content (JStr ''boom''))], Inr ''failed'')"
    using l by simp
  from wait_terminal_or_timeout[OF h, of "''success''" "[]" quiet]
  have c: "Job_wait ?pre = Inl WaitTimeout \<and> snd (Task_wait quiet True ?pre) = Inl WaitTimeout"
    using q by simp
  from a b c show ?thesis by simp
qed

section \<open>Properties of \<open>Task.wait\<close> and \<open>Task.try_wait\<close>\<close>

text \<open>
  C1, as the claim states it, fails when the log collection that \<open>wait\<close> runs for a
  failed task raises: both \<open>wait\<close> and \<open>try_wait\<close> then end with the transport error of
  the log request, not with \<open>"failed"\<close> and \<open>TaskFailed\<close>.
\<close>

theorem wait_failed_log_error:
  "snd (Task_wait failing_logs True [Inr ''running'', Inr ''failed'']) =
     Inl (ErrorMessage (Transport_Error (Some ''500 Internal Server Error'')
            (Some [(''code'', ''SERVER_ERROR'')]))) \<and>
   snd (Task_try_wait failing_logs [Inr ''running'', Inr ''failed'']) =
     Inl (ErrorMessage (Transport_Error (Some ''500 Internal Server Error'')
            (Some [(''code'', ''SERVER_ERROR'')])))"
  by (simp add: Task_try_wait_def Task_wait_def wait_try_def Task_END_STATUSES_def
      log_jobs_def job_list_def failing_logs_def get_action_name_def)

text \<open>
  C1, amended. For a task whose polling ends with the status \<open>failed\<close>, \<open>wait\<close> without
  log collection returns \<open>"failed"\<close>; with log collection (the default, and what
  \<open>try_wait\<close> uses), provided the collection raises nothing, \<open>wait\<close> returns \<open>"failed"\<close>
  and \<open>try_wait\<close> raises \<open>TaskFailed\<close>. For any other end status, \<open>wait\<close> and \<open>try_wait\<close>
  return that status, raise nothing and log nothing.
\<close>

theorem try_wait_failed:
  "fst (wait_for_attr Task_END_STATUSES polls) = Inr st \<Longrightarrow>
   (st = ''failed'' \<longrightarrow>
      Task_wait srv False polls = ([], Inr ''failed'') \<and>
      (snd (log_jobs srv (Some ''failed'')) = None \<longrightarrow>
         snd (Task_wait srv True polls) = Inr ''failed'' \<and>
         snd (Task_try_wait srv polls) = Inl TaskFailed)) \<and>
   (st \<noteq> ''failed'' \<longrightarrow>
      Task_wait srv True polls = ([], Inr st) \<and> Task_try_wait srv polls = ([], Inr st))"
proof -
  assume w: "fst (wait_for_attr Task_END_STATUSES polls) = Inr st"
  have a: "Task_wait srv False polls = ([], Inr st)"
    by (simp add: Task_wait_def wait_try_def w)
  have b: "snd (Task_wait srv True polls) = Inr ''failed'' \<and>
           snd (Task_try_wait srv polls) = Inl TaskFailed"
    if "st = ''failed''" "snd (log_jobs srv (Some ''failed'')) = None"
    using that w
    by (cases "log_jobs srv (Some ''failed'')")
       (simp add: Task_try_wait_def Task_wait_def wait_try_def)
  have c: "Task_wait srv True polls = ([], Inr st) \<and> Task_try_wait srv polls = ([], Inr st)"
    if "st \<noteq> ''failed''"
    using that w by (simp add: Task_try_wait_def Task_wait_def wait_try_def)
  from a b c show ?thesis by blast
qed

theorem try_wait_failed_witness:
  "fst (wait_for_attr Task_END_STATUSES [Inr ''running'', Inr ''failed'']) = Inr ''failed'' \<and>
   fst (wait_for_attr Task_END_STATUSES [Inr ''running'', Inr ''success'']) = Inr ''success'' \<and>
   snd (log_jobs one_log_missing (Some ''failed'')) = None \<and>
   snd (Task_wait one_log_missing True [Inr ''running'', Inr ''failed'']) = Inr ''failed'' \<and>
   snd (Task_try_wait one_log_missing [Inr ''running'', Inr ''failed'']) = Inl TaskFailed \<and>
   Task_try_wait one_log_missing [Inr ''running'', Inr ''success''] = ([], Inr ''success'')"
proof -
  have h1: "fst (wait_for_attr Task_END_STATUSES [Inr ''running'', Inr ''failed'']) = Inr ''failed''"
    by (simp add: Task_END_STATUSES_def)
  have h2: "fst (wait_for_attr Task_END_STATUSES [Inr ''running'', Inr ''success'']) = Inr ''success''"
    by (simp add: Task_END_STATUSES_def)
  have q: "snd (log_jobs one_log_missing (Some ''failed'')) = None"
    by (simp add: log_jobs_def job_list_def one_log_missing_def get_action_name_def)
  from try_wait_failed[OF h1, of one_log_missing] try_wait_failed[OF h2, of one_log_missing]
  show ?thesis using h1 h2 q by simp
qed

section \<open>Properties of the log collection\<close>

lemma log_job_files_swallow:
  assumes "get file = Inl (ErrorMessage error)" "data error = Some d"
    "map_of d ''code'' = Some ''LOG_NOT_FOUND''"
  shows "log_job_files get log_func (pre @ file # post) = log_job_files get log_func (pre @ post)"
proof (induction pre)
  case Nil
  from assms show ?case by simp
next
  case (Cons p pre)
  show ?case unfolding append_Cons log_job_files.simps Cons.IH ..
qed

lemma log_job_files_level:
  "snd (log_job_files get log_func files) = snd (log_job_files get log_func' files)"
proof (induction files)
  case Nil
  show ?case by simp
next
  case (Cons f files)
  then show ?case
    by (auto split: sum.splits error.splits option.splits prod.splits)
qed

lemma log_job_files_propagate:
  assumes "get file = Inl (ErrorMessage error)" "data error = Some d"
    "map_of d ''code'' = Some code" "code \<noteq> ''LOG_NOT_FOUND''"
  shows "snd (log_job_files get log_func pre) = None \<Longrightarrow>
         snd (log_job_files get log_func (pre @ file # post)) = Some (ErrorMessage error)"
proof (induction pre)
  case Nil
  from assms show ?case by simp
next
  case (Cons p pre)
  then show ?case
    by (auto split: sum.splits error.splits option.splits prod.splits if_splits)
qed

lemma get_action_name_jobs [simp]: "get_action_name (srv\<lparr>jobs := js\<rparr>) = get_action_name srv"
  by (simp add: get_action_name_def split: sum.split error.split)

lemma log_job_loop_jobs [simp]: "log_job_loop (srv\<lparr>jobs := js\<rparr>) js' = log_job_loop srv js'"
  by (induction js') (simp_all add: Let_def split: sum.split prod.split option.split)

lemma log_job_loop_swallow:
  assumes "log_files job = pre @ file # post"
    "client_get srv file = Inl (ErrorMessage error)" "data error = Some d"
    "map_of d ''code'' = Some ''LOG_NOT_FOUND''"
  shows "log_job_loop srv (jpre @ job # jpost) =
         log_job_loop srv (jpre @ job\<lparr>log_files := pre @ post\<rparr> # jpost)"
proof (induction jpre)
  case Nil
  show ?case
    using log_job_files_swallow[of "client_get srv" "file" error d, OF assms(2-4)]
      assms(1) by (simp add: Let_def split: sum.split)
next
  case (Cons j jpre)
  then show ?case
    by (simp add: Let_def split: sum.split prod.split option.split)
qed

lemma log_job_loop_propagate:
  assumes "log_files job = pre @ file # post"
    "client_get srv file = Inl (ErrorMessage error)" "data error = Some d"
    "map_of d ''code'' = Some code" "code \<noteq> ''LOG_NOT_FOUND''"
    "get_action_name srv = Inr name"
    "snd (log_job_files (client_get srv) Info pre) = None"
  shows "snd (log_job_loop srv jpre) = None \<Longrightarrow>
         snd (log_job_loop srv (jpre @ job # jpost)) = Some (ErrorMessage error)"
proof (induction jpre)
  case Nil
  let ?lv = "if status job = ''failed'' then Error else Info"
  have "snd (log_job_files (client_get srv) ?lv pre) = None"
    using assms(7) log_job_files_level[of "client_get srv" ?lv pre Info] by simp
  from log_job_files_propagate[of "client_get srv" "file" error d code, OF assms(2-5) this, of post]
  obtain out where "log_job_files (client_get srv) ?lv (log_files job) = (out, Some (ErrorMessage error))"
    unfolding assms(1) by (cases "log_job_files (client_get srv) ?lv (pre @ file # post)") simp
  then show ?case using assms(6)
    by (simp add: Let_def)
next
  case (Cons j jpre)
  then show ?case
    by (auto simp: Let_def split: sum.splits prod.splits option.splits)
qed

lemma job_list_split:
  "jobs srv = jpre @ job # jpost \<Longrightarrow> flt = None \<or> flt = Some (status job) \<Longrightarrow>
   job_list srv flt = job_list (srv\<lparr>jobs := jpre\<rparr>) flt @ job # job_list (srv\<lparr>jobs := jpost\<rparr>) flt"
  by (auto simp: job_list_def)

lemma job_list_skip:
  "jobs srv = jpre @ job # jpost \<Longrightarrow> flt = Some st \<Longrightarrow> status job \<noteq> st \<Longrightarrow>
   job_list srv flt = job_list (srv\<lparr>jobs := jpre\<rparr>) flt @ job_list (srv\<lparr>jobs := jpost\<rparr>) flt"
  by (auto simp: job_list_def)

text \<open>
  C4. Let a log file of one of the task's jobs fail to be fetched with a transport error
  that carries a code. If the code is \<open>LOG_NOT_FOUND\<close>, the collection runs exactly as
  if the job did not have that file: the same lines are logged for all other files and
  jobs, and the same outcome is reached. If the code is anything else and the collection
  gets as far as that file (the job is listed, the jobs and files before it raised
  nothing, the action's name was found), the collection raises that transport error.
\<close>

theorem log_not_found_swallowed:
  assumes "jobs srv = jpre @ job # jpost" "log_files job = pre @ file # post"
    "client_get srv file = Inl (ErrorMessage error)" "data error = Some d"
    "map_of d ''code'' = Some code"
  shows "(code = ''LOG_NOT_FOUND'' \<longrightarrow>
           log_jobs srv flt = log_jobs (srv\<lparr>jobs := jpre @ job\<lparr>log_files := pre @ post\<rparr> # jpost\<rparr>) flt) \<and>
         (code \<noteq> ''LOG_NOT_FOUND'' \<and> (flt = None \<or> flt = Some (status job)) \<and>
          snd (log_jobs (srv\<lparr>jobs := jpre\<rparr>) flt) = None \<and>
          (\<exists>name. get_action_name srv = Inr name) \<and>
          snd (log_job_files (client_get srv) Info pre) = None \<longrightarrow>
           snd (log_jobs srv flt) = Some (ErrorMessage error))"
proof (intro conjI impI)
  assume lnf: "code = ''LOG_NOT_FOUND''"
  let ?job' = "job\<lparr>log_files := pre @ post\<rparr>"
  let ?srv' = "srv\<lparr>jobs := jpre @ ?job' # jpost\<rparr>"
  have j': "jobs ?srv' = jpre @ ?job' # jpost" by simp
  show "log_jobs srv flt = log_jobs ?srv' flt"
  proof (cases "flt = None \<or> flt = Some (status job)")
    case True
    then have f': "flt = None \<or> flt = Some (status ?job')" by simp
    show ?thesis
      using job_list_split[OF assms(1) True] job_list_split[OF j' f']
        log_job_loop_swallow[OF assms(2-4) assms(5)[unfolded lnf]]
      by (simp add: log_jobs_def)
  next
    case False
    then obtain st where st: "flt = Some st" "status job \<noteq> st" by (cases flt) auto
    then have st': "status ?job' \<noteq> st" by simp
    show ?thesis
      using job_list_skip[OF assms(1) st] job_list_skip[OF j' st(1) st']
      by (simp add: log_jobs_def)
  qed
next
  assume a: "code \<noteq> ''LOG_NOT_FOUND'' \<and> (flt = None \<or> flt = Some (status job)) \<and>
          snd (log_jobs (srv\<lparr>jobs := jpre\<rparr>) flt) = None \<and>
          (\<exists>name. get_action_name srv = Inr name) \<and>
          snd (log_job_files (client_get srv) Info pre) = None"
  then obtain name where n: "get_action_name srv = Inr name" by blast
  from a have pre: "snd (log_job_loop srv (job_list (srv\<lparr>jobs := jpre\<rparr>) flt)) = None"
    by (simp add: log_jobs_def)
  from a have c: "code \<noteq> ''LOG_NOT_FOUND''" and f: "flt = None \<or> flt = Some (status job)"
    and fs: "snd (log_job_files (client_get srv) Info pre) = None" by simp_all
  show "snd (log_jobs srv flt) = Some (ErrorMessage error)"
    using log_job_loop_propagate[OF assms(2-5) c n fs pre] job_list_split[OF assms(1) f]
    by (simp add: log_jobs_def)
qed

theorem log_not_found_swallowed_witness:
  "log_jobs one_log_missing (Some ''failed'') =
     ([(Error, Action_line ''install''), (Error, Type_line (JStr ''stderr'')),
       (Error, Content (JStr ''boom''))], None) \<and>
   snd (log_jobs failing_logs None) =
     Some (ErrorMessage (Transport_Error (Some ''500 Internal Server Error'')
             (Some [(''code'', ''SERVER_ERROR'')])))"
proof -
  let ?job = "\<lparr>status = ''failed'', log_files = [''/job/1/log/1'', ''/job/1/log/2'']\<rparr>"
  let ?e = "Transport_Error (Some ''404 Not Found'') (Some [(''code'', ''LOG_NOT_FOUND'')])"
  have a1: "jobs one_log_missing = [] @ ?job # []" by (simp add: one_log_missing_def)
  have a2: "log_files ?job = [] @ ''/job/1/log/1'' # [''/job/1/log/2'']" by simp
  have a3: "client_get one_log_missing ''/job/1/log/1'' = Inl (ErrorMessage ?e)"
    by (simp add: one_log_missing_def)
  have a4: "data ?e = Some [(''code'', ''LOG_NOT_FOUND'')]" by simp
  have a5: "map_of [(''code'', ''LOG_NOT_FOUND'')] ''code'' = Some ''LOG_NOT_FOUND''" by simp
  let ?job2 = "\<lparr>status = ''failed'', log_files = [''/job/1/log/1'']\<rparr>"
  let ?e2 = "Transport_Error (Some ''500 Internal Server Error'') (Some [(''code'', ''SERVER_ERROR'')])"
  have b1: "jobs failing_logs = [] @ ?job2 # []" by (simp add: failing_logs_def)
  have b2: "log_files ?job2 = [] @ ''/job/1/log/1'' # []" by simp
  have b3: "client_get failing_logs ''/job/1/log/1'' = Inl (ErrorMessage ?e2)"
    by (simp add: failing_logs_def)
  have b4: "data ?e2 = Some [(''code'', ''SERVER_ERROR'')]" by simp
  have b5: "map_of [(''code'', ''SERVER_ERROR'')] ''code'' = Some ''SERVER_ERROR''" by simp
  have b6: "get_action_name failing_logs = Inr ''install''"
    by (simp add: get_action_name_def failing_logs_def)
  from log_not_found_swallowed[OF a1 a2 a3 a4 a5, of "Some ''failed''"]
  have "log_jobs one_log_missing (Some ''failed'') =
     ([(Error, Action_line ''install''), (Error, Type_line (JStr ''stderr'')),
       (Error, Content (JStr ''boom''))], None)"
    by (simp add: log_jobs_def job_list_def one_log_missing_def get_action_name_def
        log_response_def)
  moreover from log_not_found_swallowed[OF b1 b2 b3 b4 b5, of None]
  have "snd (log_jobs failing_logs None) = Some (ErrorMessage ?e2)"
    using b6 by (simp add: log_jobs_def job_list_def)
  ultimately show ?thesis by simp
qed

end
